theory Spec2Isabelle
  imports Complex_Main "HOL-Library.Multiset"
begin

section \<open>Frequency response data (control/frdata.py)\<close>

text \<open>
  The embedding follows \<^verbatim>\<open>control/frdata.py\<close>. numpy's float and complex arrays are
  lists of \<^typ>\<open>real\<close> and \<^typ>\<open>complex\<close>: arithmetic is exact, so the development
  speaks about the structure of the computations (which entries are combined, which
  checks are made, which errors are raised), not about rounding. A rank-3 response
  array \<^verbatim>\<open>fresp[i, j, k]\<close> (output, input, frequency) is a list of lists of lists,
  which can only stand for an array with at least one output and one input.
  Left out: the timebase \<^verbatim>\<open>dt\<close>, signal names and the other keyword arguments of the
  constructor (the counts are those of the response array), plotting, string conversion
  and the pandas export.
\<close>

type_synonym matrix = "complex list list"
type_synonym tensor = "complex list list list"

text \<open>
  The interpolant that \<^verbatim>\<open>scipy.interpolate.splprep\<close> fits for one channel is
  determined by the frequencies and the channel's response (the weights are computed
  from the response), so it is represented by that pair. Evaluating it is scipy's
  \<^verbatim>\<open>splev\<close>, a parameter of \<open>eval\<close> below.
\<close>

type_synonym tck = "real list \<times> complex list"

record FRD =
  omega :: "real list"
  fresp :: tensor
  ninputs :: nat
  noutputs :: nat
  ifunc :: "tck list list option"

text \<open>
  An LTI system other than an FRD, known only through what the code calls on it:
  \<open>lti_call\<close> is its response at a list of complex points, as a rank-3 array.
\<close>

record lti =
  lti_call :: "complex list \<Rightarrow> tensor"
  lti_isctime :: bool
  lti_dt :: real

datatype error =
    ConstructorDataError
  | ConstructorCopyError
  | ConstructorArgCount nat
  | AddInputMismatch nat nat
  | AddOutputMismatch nat nat
  | MulSizeMismatch nat nat
  | DivNotSISO
  | ZeroDivisionError
  | PowExponentNotInt
  | EvalRealValuedOmega
  | EvalNotInFrequencyList
  | CallNotPurelyImaginary
  | FeedbackMismatch
  | FrequencyRangesDoNotMatch
  | ConvertTypeError
  | LinAlgError

datatype warning = FrequencyPointsDoNotMatch

subsection \<open>Array helpers\<close>

definition shape0 :: "'a list \<Rightarrow> nat" where
  "shape0 t = length t"

definition shape1 :: "'a list list \<Rightarrow> nat" where
  "shape1 t = (case t of [] \<Rightarrow> 0 | r # _ \<Rightarrow> length r)"

definition shape2 :: "'a list list list \<Rightarrow> nat" where
  "shape2 t = (case t of [] \<Rightarrow> 0 | r # _ \<Rightarrow> shape1 r)"

definition ones :: "nat \<Rightarrow> nat \<Rightarrow> nat \<Rightarrow> tensor" where
  "ones p m n = replicate p (replicate m (replicate n 1))"

definition slice :: "tensor \<Rightarrow> nat \<Rightarrow> matrix" where
  \<comment> \<open>\<^verbatim>\<open>t[:, :, k]\<close>\<close>
  "slice t k = map (map (\<lambda>v. v ! k)) t"

definition matmul :: "matrix \<Rightarrow> matrix \<Rightarrow> matrix" where
  \<comment> \<open>\<^verbatim>\<open>A @ B\<close> for 2-D arrays\<close>
  "matmul A B =
     map (\<lambda>row. map (\<lambda>j. sum_list (map (\<lambda>l. row ! l * (B ! l) ! j) [0..<length B]))
                     [0..<shape1 B]) A"

definition eye :: "nat \<Rightarrow> matrix" where
  "eye n = map (\<lambda>i. map (\<lambda>j. if i = j then 1 else 0) [0..<n]) [0..<n]"

definition matadd :: "matrix \<Rightarrow> matrix \<Rightarrow> matrix" where
  "matadd A B = map2 (map2 (+)) A B"

definition tensor_add :: "tensor \<Rightarrow> tensor \<Rightarrow> tensor" where
  "tensor_add a b = map2 (map2 (map2 (+))) a b"


definition tensor_scale :: "tensor \<Rightarrow> complex \<Rightarrow> tensor" where
  "tensor_scale a c = map (map (map (\<lambda>z. z * c))) a"

definition tensor_neg :: "tensor \<Rightarrow> tensor" where
  "tensor_neg a = map (map (map uminus)) a"

definition moveaxis_2_0 :: "tensor \<Rightarrow> nat \<Rightarrow> matrix list" where
  \<comment> \<open>\<^verbatim>\<open>np.moveaxis(t, 2, 0)\<close>: one matrix per frequency; \<open>n\<close> is the length of the last axis\<close>
  "moveaxis_2_0 t n = map (slice t) [0..<n]"

definition moveaxis_0_2 :: "nat \<Rightarrow> nat \<Rightarrow> matrix list \<Rightarrow> tensor" where
  \<comment> \<open>\<^verbatim>\<open>np.moveaxis(ms, 0, 2)\<close> for a stack of \<open>p\<close> by \<open>m\<close> matrices; also the loop
      \<^verbatim>\<open>for i in range(n): fresp[:, :, i] = ms[i]\<close> that fills an empty \<open>(p, m, n)\<close> array\<close>
  "moveaxis_0_2 p m ms = map (\<lambda>i. map (\<lambda>j. map (\<lambda>M. M ! i ! j) ms) [0..<m]) [0..<p]"

subsection \<open>Construction\<close>

datatype response_arg = Resp1 "complex list" | Resp3 tensor | RespOther

datatype init_args =
    ArgsLTI lti "real list"
  | ArgsData response_arg "real list"
  | ArgsCopy FRD
  | ArgsOneOther
  | ArgsCount nat

definition make_ifunc :: "real list \<Rightarrow> tensor \<Rightarrow> tck list list" where
  "make_ifunc w fr = map (map (\<lambda>v. (w, v))) fr"

definition init_fields :: "real list \<Rightarrow> tensor \<Rightarrow> bool \<Rightarrow> FRD" where
  \<comment> \<open>the part of \<^verbatim>\<open>__init__\<close> after the positional arguments, with no signal keywords:
      the counts are taken from the shape of \<^verbatim>\<open>fresp\<close>\<close>
  "init_fields w fr smooth =
     \<lparr>omega = w, fresp = fr, ninputs = shape1 fr, noutputs = shape0 fr,
      ifunc = (if smooth then Some (make_ifunc w fr) else None)\<rparr>"

definition FRD_init :: "init_args \<Rightarrow> bool \<Rightarrow> error + FRD" where
  "FRD_init args smooth =
     (case args of
        ArgsLTI otherlti w \<Rightarrow>
          (let om = sort w;
               fr = (if lti_isctime otherlti
                     then lti_call otherlti (map (\<lambda>x. \<i> * complex_of_real x) om)
                     else lti_call otherlti
                            (map (\<lambda>x. exp (\<i> * complex_of_real x *
                                           complex_of_real (lti_dt otherlti))) om))
           in Inr (init_fields om fr smooth))
      | ArgsData d w \<Rightarrow>
          (case d of
             Resp1 v \<Rightarrow>
               if shape2 [[v]] \<noteq> length w then Inl ConstructorDataError
               else Inr (init_fields w [[v]] smooth)
           | Resp3 t \<Rightarrow>
               if shape2 t \<noteq> length w then Inl ConstructorDataError
               else Inr (init_fields w t smooth)
           | RespOther \<Rightarrow> Inl ConstructorDataError)
      | ArgsCopy f \<Rightarrow> Inr (init_fields (omega f) (fresp f) smooth)
      | ArgsOneOther \<Rightarrow> Inl ConstructorCopyError
      | ArgsCount n \<Rightarrow> Inl (ConstructorArgCount n))"

definition FRD_new :: "tensor \<Rightarrow> real list \<Rightarrow> bool \<Rightarrow> error + FRD" where
  \<comment> \<open>\<^verbatim>\<open>FRD(fresp, omega, smooth=...)\<close> as the operators call it\<close>
  "FRD_new fr w smooth = FRD_init (ArgsData (Resp3 fr) w) smooth"

definition frd :: "init_args \<Rightarrow> bool \<Rightarrow> error + FRD" where
  "frd args smooth = FRD_init args smooth"

subsection \<open>Conversion of an operand\<close>

text \<open>
  The operand of a binary operator. For an FRD operand the flag says whether its
  \<^verbatim>\<open>omega\<close> attribute is the very array object of the left operand (\<^verbatim>\<open>f * f\<close>, or an
  operand made by the copy constructor, which shares the array; its \<open>omega\<close> field is
  then that of the left operand): \<^verbatim>\<open>omega.sort()\<close> sorts the left operand's array in
  place, and a shared array is then sorted for both. \<open>convert_to_frd\<close> returns the
  caller's array after the call next to its result; an operator reads its own
  \<^verbatim>\<open>self.omega\<close> from there afterwards, and returns what the source returns.
\<close>

datatype operand =
    OpFRD FRD bool
  | OpLTI lti
  | OpScalar complex
  | OpMatrix "real list list"
  | OpOther

definition epsw :: real where
  "epsw = 1 / 10 ^ 8"

definition convert_to_frd :: "operand \<Rightarrow> real list \<Rightarrow> nat \<Rightarrow> nat \<Rightarrow> real list \<times> (error + FRD)" where
  \<comment> \<open>the first component is the caller's \<^verbatim>\<open>omega\<close> array after the call\<close>
  "convert_to_frd sys w inputs outputs =
     (case sys of
        OpFRD f shared \<Rightarrow>
          (let om = sort w;
               sys_omega = (if shared then om else omega f)
           in if length om = length sys_omega \<and>
                 list_all (\<lambda>(a, b). \<bar>a - b\<bar> < epsw) (zip om sys_omega)
              then (om, Inr (f\<lparr>omega := sys_omega\<rparr>))
              else (om, Inl FrequencyRangesDoNotMatch))
      | OpLTI l \<Rightarrow>
          (let om = sort w;
               fr = (if lti_isctime l
                     then lti_call l (map (\<lambda>x. \<i> * complex_of_real x) om)
                     else lti_call l
                            (map (\<lambda>x. exp (\<i> * complex_of_real x *
                                           complex_of_real (lti_dt l))) om))
           in (w, FRD_new fr om True))
      | OpScalar c \<Rightarrow>
          (w, FRD_new (tensor_scale (ones outputs inputs (length w)) c) w True)
      | OpMatrix M \<Rightarrow>
          (w, case FRD_new (map (map (\<lambda>c. replicate (length w) (complex_of_real c))) M)
                     w True of
                Inl e \<Rightarrow> Inl ConvertTypeError
              | Inr f \<Rightarrow> Inr f)
      | OpOther \<Rightarrow> (w, Inl ConvertTypeError))"

subsection \<open>Operators\<close>

definition neg :: "FRD \<Rightarrow> error + FRD" where
  "neg self = FRD_new (tensor_neg (fresp self)) (omega self) False"

definition add :: "FRD \<Rightarrow> operand \<Rightarrow> warning list \<times> (error + FRD)" where
  "add self other =
     (let warns = (case other of
                     OpFRD f shared \<Rightarrow>
                       if length (omega f) \<noteq> length (omega self) \<or>
                          list_ex (\<lambda>(a, b). a \<noteq> b) (zip (omega f) (omega self))
                       then [FrequencyPointsDoNotMatch] else []
                   | _ \<Rightarrow> [])
      in (warns,
          case snd (convert_to_frd other (omega self) 1 1) of
            Inl e \<Rightarrow> Inl e
          | Inr other' \<Rightarrow>
              if ninputs self \<noteq> ninputs other'
              then Inl (AddInputMismatch (ninputs self) (ninputs other'))
              else if noutputs self \<noteq> noutputs other'
              then Inl (AddOutputMismatch (noutputs self) (noutputs other'))
              else FRD_new (tensor_add (fresp self) (fresp other')) (omega other') False))"

definition sub :: "FRD \<Rightarrow> FRD \<Rightarrow> warning list \<times> (error + FRD)" where
  \<comment> \<open>\<^verbatim>\<open>self + (-other)\<close> for an FRD operand: the negated operand is a new object\<close>
  "sub self other =
     (case neg other of
        Inl e \<Rightarrow> ([], Inl e)
      | Inr other' \<Rightarrow> add self (OpFRD other' False))"

definition mul :: "FRD \<Rightarrow> operand \<Rightarrow> error + FRD" where
  "mul self other =
     (case other of
        OpScalar c \<Rightarrow>
          FRD_new (tensor_scale (fresp self) c) (omega self) (ifunc self \<noteq> None)
      | _ \<Rightarrow>
          (case convert_to_frd other (omega self) 1 1 of
             (w, Inl e) \<Rightarrow> Inl e
           | (w, Inr other') \<Rightarrow>
               if ninputs self \<noteq> noutputs other'
               then Inl (MulSizeMismatch (ninputs self) (noutputs other'))
               else
                 FRD_new
                   (moveaxis_0_2 (noutputs self) (ninputs other')
                      (map (\<lambda>i. matmul (slice (fresp self) i) (slice (fresp other') i))
                           [0..<length w]))
                   w (ifunc self \<noteq> None \<and> ifunc other' \<noteq> None)))"






subsection \<open>Feedback\<close>

text \<open>
  \<^verbatim>\<open>numpy.linalg.inv\<close> is a parameter: \<open>None\<close> stands for its \<^verbatim>\<open>LinAlgError\<close> on a
  singular matrix.
\<close>

definition feedback ::
  "(matrix \<Rightarrow> matrix option) \<Rightarrow> FRD \<Rightarrow> operand \<Rightarrow> real \<Rightarrow> error + FRD" where
  "feedback linalg_inv self other sign =
     (case convert_to_frd other (omega self) 1 1 of
        (w, Inl e) \<Rightarrow> Inl e
      | (w, Inr other') \<Rightarrow>
          if noutputs self \<noteq> ninputs other' \<or> ninputs self \<noteq> noutputs other'
          then Inl FeedbackMismatch
          else
            (let myfresp = moveaxis_2_0 (fresp self) (shape2 (fresp self));
                 otherfresp = moveaxis_2_0 (fresp other') (shape2 (fresp other'));
                 I_AB = map2 (\<lambda>b a. matadd (eye (ninputs self)) (matmul b a))
                          otherfresp myfresp;
                 invs = map linalg_inv I_AB
             in if None \<in> set invs then Inl LinAlgError
                else FRD_new
                       (moveaxis_0_2 (noutputs self) (ninputs self)
                          (map2 matmul myfresp (map the invs)))
                       (omega other') (ifunc self \<noteq> None)))"

subsection \<open>Evaluation\<close>

text \<open>
  The requested frequencies: a scalar or a 1-D array, possibly complex. An argument of
  more dimensions (\<^verbatim>\<open>input list must be 1D\<close>) is outside this type.
\<close>

datatype freq_arg = FScalar complex | FArray "complex list"

definition omega_array :: "freq_arg \<Rightarrow> complex list" where
  \<comment> \<open>\<^verbatim>\<open>np.array(omega, ndmin=1)\<close>\<close>
  "omega_array a = (case a of FScalar z \<Rightarrow> [z] | FArray zs \<Rightarrow> zs)"

datatype ndarray = Sc complex | Arr "ndarray list"

fun np_squeeze :: "ndarray \<Rightarrow> ndarray" where
  "np_squeeze (Sc z) = Sc z"
| "np_squeeze (Arr [x]) = np_squeeze x"
| "np_squeeze (Arr xs) = Arr (map np_squeeze xs)"

definition full3 :: "tensor \<Rightarrow> ndarray" where
  "full3 t = Arr (map (\<lambda>r. Arr (map (\<lambda>v. Arr (map Sc v)) r)) t)"

definition issiso :: "FRD \<Rightarrow> bool" where
  "issiso f \<longleftrightarrow> ninputs f = 1 \<and> noutputs f = 1"

text \<open>
  Modelled from the spec: \<^verbatim>\<open>_process_frequency_response\<close> of \<^verbatim>\<open>control/lti.py\<close>, which
  is not among the sources. The spec (section 4.3): if the system is SISO and squeeze is
  not explicitly False, the result collapses to the shape of the input (scalar in, scalar
  out); if squeeze is explicitly False, the full 3-axis array is returned; a system that
  is not SISO with squeeze True drops every axis of length 1. Where the spec is silent
  (not SISO, squeeze unset) the full array is returned.
\<close>

definition process_frequency_response ::
  "FRD \<Rightarrow> freq_arg \<Rightarrow> tensor \<Rightarrow> bool option \<Rightarrow> ndarray" where
  "process_frequency_response sys a out squeeze =
     (if squeeze = Some False then full3 out
      else if issiso sys then
        (case a of
           FScalar _ \<Rightarrow> (case out of [[[z]]] \<Rightarrow> Sc z | _ \<Rightarrow> full3 out)
         | FArray _ \<Rightarrow> (case out of [[v]] \<Rightarrow> Arr (map Sc v) | _ \<Rightarrow> full3 out))
      else if squeeze = Some True then np_squeeze (full3 out)
      else full3 out)"

definition mask_select :: "bool list \<Rightarrow> 'a list \<Rightarrow> 'a list" where
  \<comment> \<open>indexing the last axis with a boolean array\<close>
  "mask_select elements v = map snd (filter fst (zip elements v))"

definition eval_out ::
  "(complex \<Rightarrow> tck \<Rightarrow> real \<times> real) \<Rightarrow> FRD \<Rightarrow> freq_arg \<Rightarrow> error + tensor" where
  \<comment> \<open>the body of \<^verbatim>\<open>eval\<close> up to its last line: the array \<^verbatim>\<open>out\<close>, or the error raised\<close>
  "eval_out splev self a =
     (let ws = omega_array a
      in if list_ex (\<lambda>z. Im z > 0) ws then Inl EvalRealValuedOmega
         else
           (case ifunc self of
              None \<Rightarrow>
                (let elements = map (\<lambda>x. complex_of_real x \<in> set ws) (omega self)
                 in if length (filter id elements) < length ws
                    then Inl EvalNotInFrequencyList
                    else Inr (map (map (mask_select elements)) (fresp self)))
            | Some fs \<Rightarrow>
                Inr (map (\<lambda>i. map (\<lambda>j. map (\<lambda>z. case splev z (fs ! i ! j) of
                                                (re, im) \<Rightarrow> Complex re 0 + \<i> * Complex im 0)
                                          ws)
                                [0..<ninputs self])
                      [0..<noutputs self])))"

definition eval ::
  "(complex \<Rightarrow> tck \<Rightarrow> real \<times> real) \<Rightarrow> FRD \<Rightarrow> freq_arg \<Rightarrow> bool option \<Rightarrow> error + ndarray" where
  \<comment> \<open>\<^verbatim>\<open>return _process_frequency_response(self, omega, out, squeeze=squeeze)\<close>\<close>
  "eval splev self a squeeze =
     (case eval_out splev self a of
        Inl e \<Rightarrow> Inl e
      | Inr out \<Rightarrow> Inr (process_frequency_response self a out squeeze))"



subsection \<open>Well-formed objects\<close>

text \<open>
  What the constructor establishes for a rectangular response array with at least one
  output and one input: the counts are the array's, every channel has one value per
  frequency, and the interpolants, if any, are those fitted to the stored data.
\<close>

definition wf_FRD :: "FRD \<Rightarrow> bool" where
  "wf_FRD f \<longleftrightarrow>
     0 < noutputs f \<and> 0 < ninputs f \<and> length (fresp f) = noutputs f \<and>
     list_all (\<lambda>r. length r = ninputs f \<and> list_all (\<lambda>v. length v = length (omega f)) r)
       (fresp f) \<and>
     (ifunc f = None \<or> ifunc f = Some (make_ifunc (omega f) (fresp f)))"


subsection \<open>The example of the \<^verbatim>\<open>frd\<close> docstring\<close>

definition example_frd :: FRD where
  \<comment> \<open>\<^verbatim>\<open>frd([1.0, 1.0, 0.5], [1, 10, 100])\<close>\<close>
  "example_frd =
     \<lparr>omega = [1, 10, 100], fresp = [[[1, 1, 1 / 2]]], ninputs = 1, noutputs = 1,
      ifunc = None\<rparr>"

definition no_splev :: "complex \<Rightarrow> tck \<Rightarrow> real \<times> real" where
  \<comment> \<open>a stand-in for \<^verbatim>\<open>splev\<close> where no interpolant is evaluated\<close>
  "no_splev z t = (0, 0)"

subsection \<open>Further example objects\<close>









definition smooth_frd :: FRD where
  \<comment> \<open>\<^verbatim>\<open>frd([1, 2, 3, 4], [1, 2, 3, 4], smooth=True)\<close>\<close>
  "smooth_frd =
     \<lparr>omega = [1, 2, 3, 4], fresp = [[[1, 2, 3, 4]]], ninputs = 1, noutputs = 1,
      ifunc = Some (make_ifunc [1, 2, 3, 4] [[[1, 2, 3, 4]]])\<rparr>"



definition fb_self :: FRD where
  \<comment> \<open>\<^verbatim>\<open>frd([1], [1])\<close>\<close>
  "fb_self = \<lparr>omega = [1], fresp = [[[1]]], ninputs = 1, noutputs = 1, ifunc = None\<rparr>"

definition fb_other :: FRD where
  \<comment> \<open>\<^verbatim>\<open>frd([2], [1])\<close>\<close>
  "fb_other = \<lparr>omega = [1], fresp = [[[2]]], ninputs = 1, noutputs = 1, ifunc = None\<rparr>"

definition inv_1x1 :: "matrix \<Rightarrow> matrix option" where
  \<comment> \<open>\<^verbatim>\<open>numpy.linalg.inv\<close> on 1 by 1 matrices, the SISO case; no other size is covered\<close>
  "inv_1x1 M = (case M of [[a]] \<Rightarrow> if a = 0 then None else Some [[1 / a]] | _ \<Rightarrow> None)"

section \<open>Properties\<close>

subsection \<open>Helper lemmas\<close>

lemma FRD_new_fields:
  "FRD_new fr w sm = Inr r \<Longrightarrow>
   omega r = w \<and> fresp r = fr \<and> ninputs r = shape1 fr \<and> noutputs r = shape0 fr \<and>
   ifunc r = (if sm then Some (make_ifunc w fr) else None)"
  by (auto simp: FRD_new_def FRD_init_def init_fields_def split: if_splits)

lemma mask_select_nth:
  "length es = length v \<Longrightarrow>
   mask_select es v = map (\<lambda>k. v ! k) (filter (\<lambda>k. es ! k) [0..<length v])"
proof (induction es v rule: list_induct2)
  case Nil
  then show ?case by (simp add: mask_select_def)
next
  case (Cons e es x v)
  have "[0..<length (x # v)] = 0 # map Suc [0..<length v]"
    by (simp add: upt_conv_Cons map_Suc_upt del: upt_Suc)
  then show ?case using Cons.IH
    by (simp add: mask_select_def filter_map o_def del: upt_Suc)
qed

lemma mask_select_stored_order:
  assumes "length v = length w"
  shows "mask_select (map P w) v = map (\<lambda>k. v ! k) (filter (\<lambda>k. P (w ! k)) [0..<length w])"
proof -
  have "filter (\<lambda>k. map P w ! k) [0..<length v] = filter (\<lambda>k. P (w ! k)) [0..<length v]"
    using assms by (intro filter_cong) auto
  then show ?thesis using assms by (simp add: mask_select_nth)
qed

lemma count_members:
  assumes "distinct req" and "set req \<subseteq> complex_of_real ` set w"
  shows "length req \<le> length (filter id (map (\<lambda>x. complex_of_real x \<in> set req) w))"
proof -
  let ?hits = "filter (\<lambda>x. complex_of_real x \<in> set req) w"
  have "set req \<subseteq> complex_of_real ` set ?hits" using assms(2) by auto
  then have "card (set req) \<le> card (complex_of_real ` set ?hits)"
    by (intro card_mono) auto
  also have "\<dots> \<le> card (set ?hits)" by (rule card_image_le) simp
  also have "\<dots> \<le> length ?hits" by (rule card_length)
  finally have "length req \<le> length ?hits" using assms(1) by (simp add: distinct_card)
  moreover have "length (filter id (map (\<lambda>x. complex_of_real x \<in> set req) w)) = length ?hits"
    by (simp add: filter_map o_def)
  ultimately show ?thesis by simp
qed

lemma rows_cong:
  assumes "list_all (\<lambda>r. list_all (\<lambda>v. g v = h v) r) t"
  shows "map (map g) t = map (map h) t"
  using assms by (auto simp: list_all_iff)

lemma eval_positive_imaginary:
  "list_ex (\<lambda>z. Im z > 0) (omega_array a) \<Longrightarrow> eval splev f a sq = Inl EvalRealValuedOmega"
  by (simp add: eval_def eval_out_def)

lemma eval_outside_grid:
  assumes "ifunc r = None" and "omega_array a \<noteq> []"
    and "list_all (\<lambda>z. Im z = 0 \<and> Re z \<notin> set (omega r)) (omega_array a)"
  shows "eval splev r a sq = Inl EvalNotInFrequencyList"
proof -
  have "\<not> list_ex (\<lambda>z. Im z > 0) (omega_array a)"
    using assms(3) by (auto simp: list_ex_iff list_all_iff)
  moreover have "filter id (map (\<lambda>x. complex_of_real x \<in> set (omega_array a)) (omega r)) = []"
    using assms(3) by (auto simp: filter_empty_conv list_all_iff)
  ultimately show ?thesis using assms(1,2) by (simp add: eval_def eval_out_def)
qed

lemma example_frd_wf: "wf_FRD example_frd"
  by (simp add: wf_FRD_def example_frd_def)


lemma init_siso_wf:
  "frd (ArgsData (Resp1 v) w) sm = Inr f \<Longrightarrow> wf_FRD f \<and> issiso f"
  by (auto simp: frd_def FRD_init_def init_fields_def wf_FRD_def issiso_def shape0_def
      shape1_def shape2_def split: if_splits)



subsection \<open>Helper lemmas: grids and conversion\<close>





lemma convert_FRD_ifunc:
  "convert_to_frd (OpFRD g sh) w i p = (w', Inr g') \<Longrightarrow> ifunc g' = ifunc g"
  by (auto simp: convert_to_frd_def Let_def split: if_splits)

subsection \<open>Helper lemmas: shapes and slices\<close>








subsection \<open>Helper lemmas: SISO products and powers\<close>












subsection \<open>Helper lemmas: interpolants of results\<close>

lemma add_not_smooth: "snd (add s other) = Inr r \<Longrightarrow> ifunc r = None"
  by (auto simp: add_def Let_def split: sum.splits if_splits dest: FRD_new_fields)

lemma sub_not_smooth: "snd (sub s other) = Inr r \<Longrightarrow> ifunc r = None"
  by (auto simp: sub_def split: sum.splits dest: add_not_smooth)

lemma mul_smooth:
  "mul s (OpFRD g sh) = Inr r \<Longrightarrow> (ifunc r \<noteq> None) = (ifunc s \<noteq> None \<and> ifunc g \<noteq> None)"
  by (auto simp: mul_def split: prod.splits sum.splits if_splits
           dest!: FRD_new_fields convert_FRD_ifunc)

lemma smooth_add:
  "snd (add smooth_frd (OpFRD smooth_frd False)) =
     Inr \<lparr>omega = [1, 2, 3, 4], fresp = [[[2, 4, 6, 8]]], ninputs = 1, noutputs = 1, ifunc = None\<rparr>"
  by (simp add: add_def convert_to_frd_def smooth_frd_def epsw_def FRD_new_def FRD_init_def
      init_fields_def shape0_def shape1_def shape2_def tensor_add_def Let_def)

lemma smooth_mul:
  "mul smooth_frd (OpFRD smooth_frd False) =
     Inr \<lparr>omega = [1, 2, 3, 4], fresp = [[[1, 4, 9, 16]]], ninputs = 1, noutputs = 1,
          ifunc = Some (make_ifunc [1, 2, 3, 4] [[[1, 4, 9, 16]]])\<rparr>"
  by (simp add: mul_def convert_to_frd_def smooth_frd_def epsw_def FRD_new_def FRD_init_def
      init_fields_def shape0_def shape1_def shape2_def matmul_def slice_def moveaxis_0_2_def
      Let_def)

lemma feedback_sign_unused:
  "feedback linalg_inv s other sg = feedback linalg_inv s other sg'"
  by (simp add: feedback_def)


subsection \<open>Evaluation\<close>

text \<open>
  C3. The claim: a requested frequency with a non-zero imaginary part, positive or
  negative, makes \<open>eval\<close> fail with the real-valued-omega error. The check in the source
  is \<^verbatim>\<open>any(omega_array.imag > 0)\<close>, so a negative imaginary part passes it: on the
  docstring's example, \<open>eval\<close> at \<open>10 - 1j\<close> reaches the membership test and fails with
  the not-in-list error instead, while \<open>eval\<close> at \<open>10 + 1j\<close> fails as claimed (as every
  request with a positive imaginary part does, lemma \<open>eval_positive_imaginary\<close>).
\<close>

theorem C3_eval_negative_imaginary:
  "eval splev example_frd (FScalar (Complex 10 (- 1))) None = Inl EvalNotInFrequencyList \<and>
   eval splev example_frd (FScalar (Complex 10 1)) None = Inl EvalRealValuedOmega"
  by (simp add: eval_def eval_out_def omega_array_def example_frd_def complex_eq_iff)

text \<open>
  C7. \<^verbatim>\<open>frd([1.0, 1.0, 0.5], [1, 10, 100])\<close> constructs the SISO object
  \<open>example_frd\<close>, without interpolants. On it \<open>eval(10)\<close> selects the one stored value
  at frequency 10, the array \<open>[[[1.0]]]\<close>, and returns it as the scalar 1.0; \<open>eval(2)\<close>
  fails with the not-in-list error.
\<close>

theorem C7_eval_concrete_scenario:
  "frd (ArgsData (Resp1 [1, 1, 1 / 2]) [1, 10, 100]) False = Inr example_frd \<and>
   eval_out splev example_frd (FScalar 10) = Inr [[[1]]] \<and>
   eval splev example_frd (FScalar 10) None = Inr (Sc 1) \<and>
   eval splev example_frd (FScalar 2) None = Inl EvalNotInFrequencyList"
  by (simp add: frd_def FRD_init_def init_fields_def shape0_def shape1_def shape2_def
      eval_def eval_out_def omega_array_def process_frequency_response_def issiso_def
      mask_select_def example_frd_def)

theorem C7_eval_concrete_scenario_witness:
  "eval_out no_splev example_frd (FScalar 10) = Inr [[[1]]] \<and>
   eval no_splev example_frd (FScalar 10) None = Inr (Sc 1) \<and>
   eval no_splev example_frd (FScalar 2) None = Inl EvalNotInFrequencyList"
  using C7_eval_concrete_scenario [of no_splev] by simp



text \<open>
  C10. For an FRD without interpolants and a request of distinct frequencies that are all
  on the stored grid, \<open>eval\<close> succeeds; the array it selects holds, for every channel,
  the stored values at the indices whose frequency is requested, in the order of the
  stored grid; any permutation of the request selects the same array and returns the
  same result.
\<close>

theorem C10_eval_stored_grid_order:
  assumes "ifunc f = None" and "wf_FRD f" and "distinct req"
    and "set req \<subseteq> complex_of_real ` set (omega f)" and "mset req' = mset req"
  shows "eval_out splev f (FArray req) =
           Inr (map (map (\<lambda>v. map (\<lambda>k. v ! k)
                   (filter (\<lambda>k. complex_of_real (omega f ! k) \<in> set req)
                           [0..<length (omega f)])))
                  (fresp f)) \<and>
         eval_out splev f (FArray req') = eval_out splev f (FArray req) \<and>
         eval splev f (FArray req') sq = eval splev f (FArray req) sq \<and>
         (\<exists>r. eval splev f (FArray req) sq = Inr r)"
proof -
  have s: "set req' = set req" using assms(5) by (rule mset_eq_setD)
  have l: "length req' = length req" using assms(5) by (rule mset_eq_length)
  have perm: "eval_out splev f (FArray req') = eval_out splev f (FArray req)"
    by (simp add: eval_out_def omega_array_def assms(1) s l list_ex_iff)
  have "\<And>out. process_frequency_response f (FArray req') out sq =
                process_frequency_response f (FArray req) out sq"
    by (simp add: process_frequency_response_def)
  with perm have perm': "eval splev f (FArray req') sq = eval splev f (FArray req) sq"
    by (simp add: eval_def split: sum.splits)
  have re: "\<not> list_ex (\<lambda>z. Im z > 0) req"
    using assms(4) by (auto simp: list_ex_iff)
  have cnt: "\<not> length (filter id (map (\<lambda>x. complex_of_real x \<in> set req) (omega f)))
               < length req"
    using count_members [OF assms(3,4)] by simp
  have "list_all (\<lambda>r. list_all (\<lambda>v. length v = length (omega f)) r) (fresp f)"
    using assms(2) by (auto simp: wf_FRD_def list_all_iff)
  then have sel:
    "map (map (mask_select (map (\<lambda>x. complex_of_real x \<in> set req) (omega f)))) (fresp f)
      = map (map (\<lambda>v. map (\<lambda>k. v ! k)
                       (filter (\<lambda>k. complex_of_real (omega f ! k) \<in> set req)
                               [0..<length (omega f)]))) (fresp f)"
    by (intro rows_cong) (auto simp: list_all_iff mask_select_stored_order)
  have "eval_out splev f (FArray req) =
      Inr (map (map (mask_select (map (\<lambda>x. complex_of_real x \<in> set req) (omega f))))
             (fresp f))"
    using re cnt by (simp add: eval_out_def omega_array_def assms(1))
  then have out: "eval_out splev f (FArray req) =
      Inr (map (map (\<lambda>v. map (\<lambda>k. v ! k)
                       (filter (\<lambda>k. complex_of_real (omega f ! k) \<in> set req)
                               [0..<length (omega f)]))) (fresp f))"
    by (simp only: sel)
  then have "\<exists>r. eval splev f (FArray req) sq = Inr r"
    by (simp add: eval_def)
  with out perm perm' show ?thesis by (intro conjI)
qed

theorem C10_eval_stored_grid_order_witness:
  "ifunc example_frd = None \<and> wf_FRD example_frd \<and> distinct [100, 1 :: complex] \<and>
   set [100, 1] \<subseteq> complex_of_real ` set (omega example_frd) \<and>
   mset [1, 100 :: complex] = mset [100, 1] \<and>
   eval_out no_splev example_frd (FArray [100, 1]) = Inr [[[1, 1 / 2]]] \<and>
   eval_out no_splev example_frd (FArray [1, 100]) =
     eval_out no_splev example_frd (FArray [100, 1]) \<and>
   eval no_splev example_frd (FArray [1, 100]) None =
     eval no_splev example_frd (FArray [100, 1]) None \<and>
   eval no_splev example_frd (FArray [100, 1]) None = Inr (Arr [Sc 1, Sc (1 / 2)])"
proof -
  have h1: "ifunc example_frd = None" by (simp add: example_frd_def)
  have h3: "distinct [100, 1 :: complex]" by simp
  have h4: "set [100, 1] \<subseteq> complex_of_real ` set (omega example_frd)"
    by (simp add: example_frd_def)
  have h5: "mset [1, 100 :: complex] = mset [100, 1]" by simp
  have o: "eval_out no_splev example_frd (FArray [100, 1]) = Inr [[[1, 1 / 2]]]"
    by (simp add: eval_out_def omega_array_def example_frd_def mask_select_def)
  then have e: "eval no_splev example_frd (FArray [100, 1]) None = Inr (Arr [Sc 1, Sc (1 / 2)])"
    by (simp add: eval_def example_frd_def process_frequency_response_def issiso_def)
  from C10_eval_stored_grid_order [OF h1 example_frd_wf h3 h4 h5, of no_splev None]
    h1 example_frd_wf h3 h4 h5 o e
  show ?thesis by simp
qed

subsection \<open>Construction\<close>




subsection \<open>Addition and multiplication\<close>







subsection \<open>Power\<close>




subsection \<open>Smoothing of results\<close>

text \<open>
  C9. A sum or difference of two FRDs has no interpolants, whatever the operands have,
  and its \<open>eval\<close> fails with the not-in-list error on every non-empty request of real
  frequencies that are all outside the stored grid; a product of two FRDs has
  interpolants exactly when both operands have them.
\<close>

theorem C9_sum_not_smooth:
  "(snd (add s (OpFRD g sh)) = Inr r \<or> snd (sub s g) = Inr r \<longrightarrow>
      ifunc r = None \<and>
      (omega_array a \<noteq> [] \<and>
       list_all (\<lambda>z. Im z = 0 \<and> Re z \<notin> set (omega r)) (omega_array a) \<longrightarrow>
         eval splev r a sq = Inl EvalNotInFrequencyList)) \<and>
   (mul s (OpFRD g sh) = Inr r' \<longrightarrow>
      (ifunc r' \<noteq> None) = (ifunc s \<noteq> None \<and> ifunc g \<noteq> None))"
proof (intro conjI impI)
  assume "snd (add s (OpFRD g sh)) = Inr r \<or> snd (sub s g) = Inr r"
  then show n: "ifunc r = None" using add_not_smooth sub_not_smooth by blast
  assume "omega_array a \<noteq> [] \<and>
       list_all (\<lambda>z. Im z = 0 \<and> Re z \<notin> set (omega r)) (omega_array a)"
  then show "eval splev r a sq = Inl EvalNotInFrequencyList"
    using n eval_outside_grid by blast
next
  assume "mul s (OpFRD g sh) = Inr r'"
  then show "(ifunc r' \<noteq> None) = (ifunc s \<noteq> None \<and> ifunc g \<noteq> None)"
    by (rule mul_smooth)
qed

theorem C9_sum_not_smooth_witness:
  "snd (add smooth_frd (OpFRD smooth_frd False)) =
     Inr \<lparr>omega = [1, 2, 3, 4], fresp = [[[2, 4, 6, 8]]], ninputs = 1, noutputs = 1, ifunc = None\<rparr> \<and>
   ifunc smooth_frd \<noteq> None \<and>
   eval no_splev \<lparr>omega = [1, 2, 3, 4], fresp = [[[2, 4, 6, 8]]], ninputs = 1, noutputs = 1, ifunc = None\<rparr>
     (FScalar 5) None = Inl EvalNotInFrequencyList \<and>
   mul smooth_frd (OpFRD smooth_frd False) =
     Inr \<lparr>omega = [1, 2, 3, 4], fresp = [[[1, 4, 9, 16]]], ninputs = 1, noutputs = 1,
          ifunc = Some (make_ifunc [1, 2, 3, 4] [[[1, 4, 9, 16]]])\<rparr>"
  using C9_sum_not_smooth [of smooth_frd smooth_frd False
      "\<lparr>omega = [1, 2, 3, 4], fresp = [[[2, 4, 6, 8]]], ninputs = 1, noutputs = 1, ifunc = None\<rparr>"
      "FScalar 5" no_splev None
      "\<lparr>omega = [1, 2, 3, 4], fresp = [[[1, 4, 9, 16]]], ninputs = 1, noutputs = 1,
          ifunc = Some (make_ifunc [1, 2, 3, 4] [[[1, 4, 9, 16]]])\<rparr>"]
    smooth_add smooth_mul
  by (simp add: omega_array_def smooth_frd_def)

subsection \<open>Feedback\<close>

text \<open>
  C1. The claim: \<open>feedback(other, sign)\<close> is \<open>self * inv(I - sign*other*self)\<close>, so that
  the results for \<open>sign = +1\<close> and \<open>sign = -1\<close> differ when \<open>other*self\<close> is non-zero. The
  source never reads \<open>sign\<close>: it always inverts \<open>I + other*self\<close>. For \<open>self = 1\<close>
  and \<open>other = 2\<close> at one frequency, \<open>sign = +1\<close> gives \<open>1/3\<close>, as \<open>sign = -1\<close> does,
  where the claim's formula gives \<open>1 / (1 - 2) = -1\<close>.
\<close>

theorem C1_feedback_ignores_sign:
  "feedback inv_1x1 fb_self (OpFRD fb_other False) 1 =
     Inr \<lparr>omega = [1], fresp = [[[1 / 3]]], ninputs = 1, noutputs = 1, ifunc = None\<rparr> \<and>
   feedback inv_1x1 fb_self (OpFRD fb_other False) (- 1) =
     Inr \<lparr>omega = [1], fresp = [[[1 / 3]]], ninputs = 1, noutputs = 1, ifunc = None\<rparr>"
  by (simp add: feedback_def convert_to_frd_def fb_self_def fb_other_def epsw_def FRD_new_def FRD_init_def
      init_fields_def shape0_def shape1_def shape2_def matmul_def slice_def moveaxis_0_2_def
      moveaxis_2_0_def eye_def matadd_def inv_1x1_def Let_def)

theorem C1_feedback_ignores_sign_witness:
  "feedback inv_1x1 fb_self (OpFRD fb_other False) 1 =
   feedback inv_1x1 fb_self (OpFRD fb_other False) (- 1)"
  using C1_feedback_ignores_sign by simp


end
